theory Spec2Isabelle
  imports Main
begin

section \<open>The data of client.ts\<close>

text \<open>
  The interfaces of the source become records. A JavaScript number that the client only
  compares and copies (an id, a status, a code, an expiration) is an \<open>int\<close>, and such a
  number is truthy when it is not 0; a value of type \<open>ITokenInfo | null\<close> is an \<open>option\<close>. The field \<open>id\<close> and \<open>value\<close> of
  \<open>IGetEnvResp\<close> carry a prime, since both names are taken in Isabelle.
\<close>

record ITokenInfo =
  token :: string
  token_type :: string
  expiration :: int

type_synonym IGetTokenResp = ITokenInfo

record IGetEnvResp =
  id' :: int
  name :: string
  value' :: string
  remarks :: string

text \<open>
  The request configurations the client builds. \<open>params\<close> and \<open>headers\<close> are the object
  literals of the source, in the order their keys are written; \<open>payload\<close> is the
  configuration's \<open>data\<close> key, which only \<open>setEnv\<close> sets (its \<open>remarks\<close> is optional).
\<close>

datatype http_method = GET | PUT

record env_update =
  upd_id :: int
  upd_name :: string
  upd_value :: string
  upd_remarks :: "string option"

record AxiosRequestConfig =
  http_method :: http_method
  url :: string
  headers :: "(string \<times> string) list"
  params :: "(string \<times> string) list"
  payload :: "env_update option"

text \<open>
  What \<open>axiosInstance.request\<close> gives back: the promise is rejected (a transport error),
  or it resolves to a response with a \<open>status\<close> and a body \<open>resp.data\<close>, which the client
  destructures into \<open>code\<close> and \<open>data\<close>. The type of \<open>data\<close> is the parameter \<open>'d\<close>:
  \<open>request\<close> returns it untouched, and each caller declares what it expects.
\<close>

record 'd resp_body =
  code :: int
  data :: 'd

record 'd AxiosResponse =
  status :: int
  body :: "'d resp_body"

datatype 'd outcome = Rejected string | Resolved "'d AxiosResponse"

text \<open>
  The errors the client throws. The two \<open>requestFail\<close> errors keep the number that caused
  them instead of the message text (the message interpolates \<open>url\<close>, which in the source
  is the function imported from \<open>inspector\<close>); \<open>Error\<close> carries the message of the two
  errors whose text is a plain string.
\<close>

datatype error =
    TransportError string
  | RequestFail_status int
  | RequestFail_code int
  | Error string

text \<open>
  The network seen from the client: the configurations handed to the transport so far,
  oldest first, and the state \<open>'w\<close> of the remote service. A transport answers one
  configuration from the service's state and leaves the service in a new state. The three
  fields of \<open>remote_api\<close> are the transport at the three result types the client uses.
\<close>

record 'w net =
  sent :: "AxiosRequestConfig list"
  remote :: 'w

type_synonym ('d, 'w) transport = "AxiosRequestConfig \<Rightarrow> 'w \<Rightarrow> 'd outcome \<times> 'w"

record 'w remote_api =
  auth_token :: "(IGetTokenResp, 'w) transport"
  envs_get :: "(IGetEnvResp list, 'w) transport"
  envs_put :: "(IGetEnvResp, 'w) transport"

record axios_defaults =
  default_method :: http_method
  baseURL :: string
  responseType :: string
  timeout :: nat

record Client =
  baseUrl :: string
  clientId :: string
  clientSecret :: string
  tokenInfo :: "ITokenInfo option"
  axiosInstance :: axios_defaults

text \<open>A method runs on the object \<open>this\<close> and the network, and returns both.\<close>

record 'w state =
  this :: Client
  net :: "'w net"

section \<open>The methods of Client\<close>

definition new_Client :: "string \<Rightarrow> string \<Rightarrow> string \<Rightarrow> Client" where
  "new_Client b i s =
     \<lparr>baseUrl = b, clientId = i, clientSecret = s, tokenInfo = None,
      axiosInstance =
        \<lparr>default_method = GET, baseURL = b, responseType = ''json'', timeout = 3000\<rparr>\<rparr>"

text \<open>One call of the transport: the configuration is recorded and the service answers.\<close>

definition axios_request ::
  "('d, 'w) transport \<Rightarrow> AxiosRequestConfig \<Rightarrow> 'w net \<Rightarrow> 'd outcome \<times> 'w net" where
  "axios_request T cfg w =
     (case T cfg (remote w) of
        (r, srv) \<Rightarrow> (r, \<lparr>sent = sent w @ [cfg], remote = srv\<rparr>))"

text \<open>The checks of \<open>request\<close> on what the transport gave back (lines 42 to 55).\<close>

definition check_outcome :: "'d outcome \<Rightarrow> error + 'd" where
  "check_outcome r =
     (case r of
        Rejected m \<Rightarrow> Inl (TransportError m)
      | Resolved resp \<Rightarrow>
          if status resp < 200 \<or> status resp \<ge> 300 then Inl (RequestFail_status (status resp))
          else if code (body resp) \<noteq> 200 then Inl (RequestFail_code (code (body resp)))
          else Inr (data (body resp)))"

definition request ::
  "('d, 'w) transport \<Rightarrow> AxiosRequestConfig \<Rightarrow> 'w state \<Rightarrow> (error + 'd) \<times> 'w state" where
  "request T cfg s =
     (case axios_request T cfg (net s) of
        (r, w) \<Rightarrow> (check_outcome r, s\<lparr>net := w\<rparr>))"

definition token_config :: "Client \<Rightarrow> AxiosRequestConfig" where
  "token_config c =
     \<lparr>http_method = GET, url = ''/open/auth/token'', headers = [],
      params = [(''client_id'', clientId c), (''client_secret'', clientSecret c)],
      payload = None\<rparr>"

definition doGetToken :: "'w remote_api \<Rightarrow> 'w state \<Rightarrow> (error + IGetTokenResp) \<times> 'w state" where
  "doGetToken R s = request (auth_token R) (token_config (this s)) s"

text \<open>
  The template string of lines 72, 80 and 85, and the test \<open>tokenInfo && tokenInfo.expiration\<close>
  of lines 71 and 79 together with the return it guards.
\<close>

definition bearer :: "ITokenInfo \<Rightarrow> string" where
  "bearer t = token_type t @ '' '' @ token t"

definition cached_token :: "Client \<Rightarrow> string option" where
  "cached_token c =
     (case tokenInfo c of
        None \<Rightarrow> None
      | Some t \<Rightarrow> if expiration t \<noteq> 0 then Some (bearer t) else None)"

text \<open>
  \<open>getToken\<close> run from its call to its return with no other call in between. The lock of
  line 75 is created by the call itself, so \<open>writeLock\<close> finds it idle and \<open>unlock\<close> in the
  \<open>finally\<close> block releases it on every path; the second test of the cache is kept where
  the source has it. The section on interleaved calls has the lock itself.
\<close>

definition getToken :: "'w remote_api \<Rightarrow> 'w state \<Rightarrow> (error + string) \<times> 'w state" where
  "getToken R s =
     (case cached_token (this s) of
        Some a \<Rightarrow> (Inr a, s)
      | None \<Rightarrow>
          (case cached_token (this s) of
             Some a \<Rightarrow> (Inr a, s)
           | None \<Rightarrow>
               (case doGetToken R s of
                  (Inl e, s1) \<Rightarrow> (Inl e, s1)
                | (Inr t, s1) \<Rightarrow>
                    (Inr (bearer t), s1\<lparr>this := (this s1)\<lparr>tokenInfo := Some t\<rparr>\<rparr>))))"

text \<open>The loop of lines 103 to 107: the first element whose name is the one asked for.\<close>

fun find_env :: "string \<Rightarrow> IGetEnvResp list \<Rightarrow> IGetEnvResp option" where
  "find_env n [] = None"
| "find_env n (env # envs) = (if name env = n then Some env else find_env n envs)"

definition quote :: char where
  "quote = CHR 0x27"

definition not_found_message :: "string \<Rightarrow> string" where
  "not_found_message n = ''Env '' @ [quote] @ n @ [quote] @ '' Not Found''"

definition not_exist_message :: "string \<Rightarrow> string" where
  "not_exist_message n = ''Env '' @ [quote] @ n @ [quote] @ '' Not Exist''"

definition get_env_config :: "string \<Rightarrow> string \<Rightarrow> AxiosRequestConfig" where
  "get_env_config auth n =
     \<lparr>http_method = GET, url = ''/open/envs'', headers = [(''Authorization'', auth)],
      params = [(''searchValue'', n)], payload = None\<rparr>"

text \<open>
  The argument of \<open>request\<close> is evaluated first, so \<open>getToken\<close> runs before the query
  is sent. The result of \<open>getEnv\<close> is a reference, which \<open>setEnv\<close> tests with \<open>!env\<close>:
  \<open>None\<close> stands for a null or undefined one.
\<close>

definition getEnv ::
  "'w remote_api \<Rightarrow> string \<Rightarrow> 'w state \<Rightarrow> (error + IGetEnvResp option) \<times> 'w state" where
  "getEnv R n s =
     (case getToken R s of
        (Inl e, s1) \<Rightarrow> (Inl e, s1)
      | (Inr auth, s1) \<Rightarrow>
          (case request (envs_get R) (get_env_config auth n) s1 of
             (Inl e, s2) \<Rightarrow> (Inl e, s2)
           | (Inr envs, s2) \<Rightarrow>
               (case find_env n envs of
                  Some env \<Rightarrow> (Inr (Some env), s2)
                | None \<Rightarrow> (Inl (Error (not_found_message n)), s2))))"

definition put_env_config ::
  "string \<Rightarrow> IGetEnvResp \<Rightarrow> string \<Rightarrow> string \<Rightarrow> string option \<Rightarrow> AxiosRequestConfig" where
  "put_env_config auth env n v r =
     \<lparr>http_method = PUT, url = ''/open/envs'',
      headers = [(''Authorization'', auth), (''Content-Type'', ''application/json'')],
      params = [],
      payload = Some \<lparr>upd_id = id' env, upd_name = n, upd_value = v, upd_remarks = r\<rparr>\<rparr>"

definition setEnv ::
  "'w remote_api \<Rightarrow> string \<Rightarrow> string \<Rightarrow> string option \<Rightarrow> 'w state
     \<Rightarrow> (error + IGetEnvResp) \<times> 'w state" where
  "setEnv R n v r s =
     (case getEnv R n s of
        (Inl e, s1) \<Rightarrow> (Inl e, s1)
      | (Inr None, s1) \<Rightarrow> (Inl (Error (not_exist_message n)), s1)
      | (Inr (Some env), s1) \<Rightarrow>
          (case getToken R s1 of
             (Inl e, s2) \<Rightarrow> (Inl e, s2)
           | (Inr auth, s2) \<Rightarrow> request (envs_put R) (put_env_config auth env n v r) s2))"

section \<open>Calls of getToken that overlap\<close>

text \<open>
  An \<open>async\<close> method runs without interruption from one \<open>await\<close> to the next, and
  other calls on the same object may run in between. A call of \<open>getToken\<close> is therefore a
  small machine with one step per uninterrupted stretch:
  \<^item> \<open>Called\<close>: the call has been made and has not started (line 69);
  \<^item> \<open>AtWriteLock l\<close>: it waits at line 77 for the lock \<open>l\<close> it created at line 75;
  \<^item> \<open>AtRequest l r\<close>: it holds \<open>l\<close> and waits at line 83 (line 41 inside \<open>request\<close>)
    for the answer \<open>r\<close>, which the transport has been asked for;
  \<^item> \<open>Returned x\<close>: its promise is settled with \<open>x\<close>.

  The locks are a store of flags (\<open>True\<close>: held by a writer). \<open>new RWLock()\<close> adds an
  idle lock to the store and names it by its position; \<open>writeLock\<close> goes on only when the
  lock is idle and then holds it; \<open>unlock\<close> makes it idle.
\<close>

datatype call =
    Called
  | AtWriteLock nat
  | AtRequest nat "IGetTokenResp outcome"
  | Returned "error + string"

record 'w conc =
  shared :: "'w state"
  locks :: "bool list"
  calls :: "call list"

definition new_RWLock :: "bool list \<Rightarrow> nat \<times> bool list" where
  "new_RWLock ls = (length ls, ls @ [False])"

definition writeLock :: "nat \<Rightarrow> bool list \<Rightarrow> bool list option" where
  "writeLock l ls = (if length ls \<le> l \<or> ls ! l then None else Some (ls[l := True]))"

definition unlock :: "nat \<Rightarrow> bool list \<Rightarrow> bool list" where
  "unlock l ls = ls[l := False]"

text \<open>
  One step of call \<open>i\<close>; \<open>None\<close> when there is no such call, when it has returned, or
  when it waits for a lock that is held.
\<close>

definition step :: "'w remote_api \<Rightarrow> nat \<Rightarrow> 'w conc \<Rightarrow> 'w conc option" where
  "step R i k =
     (if length (calls k) \<le> i then None
      else
        (case calls k ! i of
           Called \<Rightarrow>
             (case cached_token (this (shared k)) of
                Some a \<Rightarrow> Some (k\<lparr>calls := (calls k)[i := Returned (Inr a)]\<rparr>)
              | None \<Rightarrow>
                  (case new_RWLock (locks k) of
                     (l, ls) \<Rightarrow> Some (k\<lparr>locks := ls, calls := (calls k)[i := AtWriteLock l]\<rparr>)))
         | AtWriteLock l \<Rightarrow>
             (case writeLock l (locks k) of
                None \<Rightarrow> None
              | Some ls \<Rightarrow>
                  (case cached_token (this (shared k)) of
                     Some a \<Rightarrow>
                       Some (k\<lparr>locks := unlock l ls, calls := (calls k)[i := Returned (Inr a)]\<rparr>)
                   | None \<Rightarrow>
                       (case axios_request (auth_token R) (token_config (this (shared k)))
                               (net (shared k)) of
                          (r, w) \<Rightarrow>
                            Some (k\<lparr>shared := (shared k)\<lparr>net := w\<rparr>, locks := ls,
                                    calls := (calls k)[i := AtRequest l r]\<rparr>))))
         | AtRequest l r \<Rightarrow>
             (case check_outcome r of
                Inl e \<Rightarrow>
                  Some (k\<lparr>locks := unlock l (locks k),
                          calls := (calls k)[i := Returned (Inl e)]\<rparr>)
              | Inr t \<Rightarrow>
                  Some (k\<lparr>shared := (shared k)\<lparr>this := (this (shared k))\<lparr>tokenInfo := Some t\<rparr>\<rparr>,
                          locks := unlock l (locks k),
                          calls := (calls k)[i := Returned (Inr (bearer t))]\<rparr>))
         | Returned x \<Rightarrow> None))"

text \<open>A schedule names the call that takes each step.\<close>

fun run :: "'w remote_api \<Rightarrow> nat list \<Rightarrow> 'w conc \<Rightarrow> 'w conc option" where
  "run R [] k = Some k"
| "run R (i # sched) k = (case step R i k of None \<Rightarrow> None | Some k1 \<Rightarrow> run R sched k1)"

definition start :: "'w state \<Rightarrow> nat \<Rightarrow> 'w conc" where
  "start s n = \<lparr>shared = s, locks = [], calls = replicate n Called\<rparr>"

definition token_requests :: "AxiosRequestConfig list \<Rightarrow> nat" where
  "token_requests cfgs = length (filter (\<lambda>cfg. url cfg = ''/open/auth/token'') cfgs)"

section \<open>Notions the properties are stated with\<close>

text \<open>The PUT requests among the configurations sent.\<close>

definition puts :: "AxiosRequestConfig list \<Rightarrow> AxiosRequestConfig list" where
  "puts cfgs = filter (\<lambda>cfg. http_method cfg = PUT) cfgs"

text \<open>A token has expired at time \<open>now\<close> when its expiration timestamp lies before it.\<close>

definition token_expired :: "int \<Rightarrow> ITokenInfo \<Rightarrow> bool" where
  "token_expired now t = (expiration t < now)"

text \<open>Calling \<open>getToken\<close> \<open>n\<close> times in a row: the results in order, and the last state.\<close>

fun getToken_calls :: "'w remote_api \<Rightarrow> nat \<Rightarrow> 'w state \<Rightarrow> (error + string) list \<times> 'w state" where
  "getToken_calls R 0 s = ([], s)"
| "getToken_calls R (Suc n) s =
     (case getToken R s of
        (x, s1) \<Rightarrow> (case getToken_calls R n s1 of (xs, s2) \<Rightarrow> (x # xs, s2)))"

text \<open>The fields of the client other than \<open>tokenInfo\<close> agree.\<close>

definition same_settings :: "Client \<Rightarrow> Client \<Rightarrow> bool" where
  "same_settings c c1 =
     (baseUrl c1 = baseUrl c \<and> clientId c1 = clientId c \<and> clientSecret c1 = clientSecret c
      \<and> axiosInstance c1 = axiosInstance c)"

section \<open>A service to run the client against\<close>

text \<open>
  A successful answer carrying \<open>d\<close>, and a service that counts the tokens it has issued:
  the first token is \<open>first\<close>, every later one \<open>second\<close>, all with expiration \<open>ex\<close>. It
  knows three variables and answers an update with the record as updated.
\<close>

definition ok :: "'d \<Rightarrow> 'd outcome" where
  "ok d = Resolved \<lparr>status = 200, body = \<lparr>code = 200, data = d\<rparr>\<rparr>"

definition issued :: "int \<Rightarrow> nat \<Rightarrow> ITokenInfo" where
  "issued ex k =
     \<lparr>token = (if k = 0 then ''first'' else ''second''), token_type = ''Bearer'', expiration = ex\<rparr>"

definition known_envs :: "IGetEnvResp list" where
  "known_envs =
     [\<lparr>id' = 7, name = ''PATH_X'', value' = ''a'', remarks = []\<rparr>,
      \<lparr>id' = 8, name = ''PATH'', value' = ''b'', remarks = []\<rparr>,
      \<lparr>id' = 9, name = ''PATH'', value' = ''c'', remarks = []\<rparr>]"

definition updated :: "AxiosRequestConfig \<Rightarrow> IGetEnvResp" where
  "updated cfg =
     (case payload cfg of
        None \<Rightarrow> \<lparr>id' = 0, name = [], value' = [], remarks = []\<rparr>
      | Some u \<Rightarrow>
          \<lparr>id' = upd_id u, name = upd_name u, value' = upd_value u,
           remarks = (case upd_remarks u of None \<Rightarrow> [] | Some r \<Rightarrow> r)\<rparr>)"

definition service :: "int \<Rightarrow> nat remote_api" where
  "service ex =
     \<lparr>auth_token = (\<lambda>cfg k. (ok (issued ex k), Suc k)),
      envs_get = (\<lambda>cfg k. (ok known_envs, k)),
      envs_put = (\<lambda>cfg k. (ok (updated cfg), k))\<rparr>"

text \<open>A service that is down: every call is rejected.\<close>

definition down :: "nat remote_api" where
  "down =
     \<lparr>auth_token = (\<lambda>cfg k. (Rejected ''timeout'', k)),
      envs_get = (\<lambda>cfg k. (Rejected ''timeout'', k)),
      envs_put = (\<lambda>cfg k. (Rejected ''timeout'', k))\<rparr>"

text \<open>
  A service that issues one token, with expiration 0, and rejects every later token request;
  it answers queries and updates as \<open>service\<close> does.
\<close>

definition flaky :: "nat remote_api" where
  "flaky =
     \<lparr>auth_token = (\<lambda>cfg k. if k = 0 then (ok (issued 0 k), Suc k) else (Rejected ''timeout'', k)),
      envs_get = (\<lambda>cfg k. (ok known_envs, k)),
      envs_put = (\<lambda>cfg k. (ok (updated cfg), k))\<rparr>"

definition fresh :: "nat state" where
  "fresh = \<lparr>this = new_Client ''http://ql'' ''id'' ''secret'', net = \<lparr>sent = [], remote = 0\<rparr>\<rparr>"

text \<open>The same client holding a token whose expiration is \<open>ex\<close>.\<close>

definition holding :: "int \<Rightarrow> nat state" where
  "holding ex =
     fresh\<lparr>this := (this fresh)\<lparr>tokenInfo :=
       Some \<lparr>token = ''old'', token_type = ''Bearer'', expiration = ex\<rparr>\<rparr>\<rparr>"

section \<open>What each method does to the state\<close>

lemma request_sent: "sent (net (snd (request T cfg s))) = sent (net s) @ [cfg]"
  by (simp add: request_def axios_request_def split: prod.splits)

lemma request_this: "this (snd (request T cfg s)) = this s"
  by (simp add: request_def axios_request_def split: prod.splits)

lemma request_remote: "remote (net (snd (request T cfg s))) = snd (T cfg (remote (net s)))"
  by (simp add: request_def axios_request_def split: prod.splits)

lemma request_result: "fst (request T cfg s) = check_outcome (fst (T cfg (remote (net s))))"
  by (simp add: request_def axios_request_def split: prod.splits)

lemma cached_token_None_iff:
  "cached_token c = None \<longleftrightarrow>
     tokenInfo c = None \<or> (\<exists>t. tokenInfo c = Some t \<and> expiration t = 0)"
  by (simp add: cached_token_def split: option.splits)

lemma cached_token_Some:
  "tokenInfo c = Some t \<Longrightarrow> expiration t \<noteq> 0 \<Longrightarrow> cached_token c = Some (bearer t)"
  by (simp add: cached_token_def)

lemma cached_token_SomeD:
  "cached_token c = Some a \<Longrightarrow> \<exists>t. tokenInfo c = Some t \<and> expiration t \<noteq> 0 \<and> a = bearer t"
  by (auto simp: cached_token_def split: option.splits if_splits)

lemma getToken_hit: "cached_token (this s) = Some a \<Longrightarrow> getToken R s = (Inr a, s)"
  by (simp add: getToken_def)

lemma getToken_miss:
  "cached_token (this s) = None \<Longrightarrow>
   getToken R s =
     (case doGetToken R s of
        (Inl e, s1) \<Rightarrow> (Inl e, s1)
      | (Inr t, s1) \<Rightarrow> (Inr (bearer t), s1\<lparr>this := (this s1)\<lparr>tokenInfo := Some t\<rparr>\<rparr>))"
  by (simp add: getToken_def)

lemma doGetToken_sent:
  "sent (net (snd (doGetToken R s))) = sent (net s) @ [token_config (this s)]"
  by (simp add: doGetToken_def request_sent)

lemma doGetToken_this: "this (snd (doGetToken R s)) = this s"
  by (simp add: doGetToken_def request_this)

lemma getToken_sent_miss:
  assumes "cached_token (this s) = None"
  shows "sent (net (snd (getToken R s))) = sent (net s) @ [token_config (this s)]"
proof (cases "doGetToken R s")
  case (Pair x s1)
  with doGetToken_sent [of R s] have "sent (net s1) = sent (net s) @ [token_config (this s)]"
    by simp
  with Pair assms show ?thesis
    by (cases x) (simp_all add: getToken_miss)
qed

lemma getToken_sent_cases:
  "sent (net (snd (getToken R s))) =
     (if cached_token (this s) = None then sent (net s) @ [token_config (this s)] else sent (net s))"
  by (auto simp: getToken_sent_miss getToken_hit)

lemma getToken_settings: "same_settings (this s) (this (snd (getToken R s)))"
proof (cases "cached_token (this s)")
  case None
  obtain x s1 where d: "doGetToken R s = (x, s1)" by (cases "doGetToken R s")
  with doGetToken_this [of R s] have "this s1 = this s" by simp
  with None d show ?thesis
    by (cases x) (simp_all add: getToken_miss same_settings_def)
next
  case (Some a)
  then show ?thesis by (simp add: getToken_hit same_settings_def)
qed

lemma puts_token_config: "puts (cfgs @ [token_config c]) = puts cfgs"
  by (simp add: puts_def token_config_def)

lemma getToken_puts: "puts (sent (net (snd (getToken R s)))) = puts (sent (net s))"
  by (simp add: getToken_sent_cases puts_token_config)

lemma puts_get_env_config: "puts (cfgs @ [get_env_config a n]) = puts cfgs"
  by (simp add: puts_def get_env_config_def)

lemma same_settings_refl: "same_settings c c"
  by (simp add: same_settings_def)

lemma same_settings_trans: "same_settings a b \<Longrightarrow> same_settings b c \<Longrightarrow> same_settings a c"
  by (simp add: same_settings_def)

lemma getEnv_token_fails:
  "getToken R s = (Inl e, s1) \<Longrightarrow> getEnv R n s = (Inl e, s1)"
  by (simp add: getEnv_def)

lemma getEnv_token_ok:
  "getToken R s = (Inr auth, s1) \<Longrightarrow>
   getEnv R n s =
     (case request (envs_get R) (get_env_config auth n) s1 of
        (Inl e, s2) \<Rightarrow> (Inl e, s2)
      | (Inr envs, s2) \<Rightarrow>
          (case find_env n envs of
             Some env \<Rightarrow> (Inr (Some env), s2)
           | None \<Rightarrow> (Inl (Error (not_found_message n)), s2)))"
  by (simp add: getEnv_def)

lemma getEnv_snd:
  "getToken R s = (Inr auth, s1) \<Longrightarrow>
   snd (getEnv R n s) = snd (request (envs_get R) (get_env_config auth n) s1)"
  by (simp add: getEnv_token_ok split: prod.splits sum.splits option.splits)

lemma getEnv_sent:
  "getToken R s = (Inr auth, s1) \<Longrightarrow>
   sent (net (snd (getEnv R n s))) = sent (net s1) @ [get_env_config auth n]"
  by (simp add: getEnv_snd request_sent)

lemma getEnv_this:
  "getToken R s = (x, s1) \<Longrightarrow> this (snd (getEnv R n s)) = this s1"
  by (cases x) (simp_all add: getEnv_token_fails getEnv_snd request_this)

lemma getEnv_settings: "same_settings (this s) (this (snd (getEnv R n s)))"
proof -
  obtain x s1 where g: "getToken R s = (x, s1)" by (cases "getToken R s")
  with getToken_settings [of s R] have "same_settings (this s) (this s1)" by simp
  with getEnv_this [OF g] show ?thesis by simp
qed

lemma getEnv_puts: "puts (sent (net (snd (getEnv R n s)))) = puts (sent (net s))"
proof -
  obtain x s1 where g: "getToken R s = (x, s1)" by (cases "getToken R s")
  with getToken_puts [of R s] have p: "puts (sent (net s1)) = puts (sent (net s))" by simp
  show ?thesis
  proof (cases x)
    case (Inl e)
    with g p show ?thesis by (simp add: getEnv_token_fails)
  next
    case (Inr auth)
    with g p show ?thesis by (simp add: getEnv_sent puts_get_env_config)
  qed
qed

lemma find_env_Some_name: "find_env n envs = Some env \<Longrightarrow> name env = n \<and> env \<in> set envs"
  by (induction envs) (auto split: if_splits)

lemma find_env_first:
  "name env = n \<Longrightarrow> \<forall>x\<in>set pre. name x \<noteq> n \<Longrightarrow> find_env n (pre @ env # post) = Some env"
  by (induction pre) auto

lemma find_env_None: "find_env n envs = None \<longleftrightarrow> (\<forall>x\<in>set envs. name x \<noteq> n)"
  by (induction envs) auto

lemma find_env_find: "find_env n envs = find (\<lambda>env. name env = n) envs"
  by (induction envs) auto

lemma getEnv_never_null: "fst (getEnv R n s) \<noteq> Inr None"
  by (simp add: getEnv_def split: prod.splits sum.splits option.splits)

text \<open>The first token of the counting service, on a new client.\<close>

lemma doGetToken_service:
  "doGetToken (service ex) fresh =
     (Inr (issued ex 0), fresh\<lparr>net := \<lparr>sent = [token_config (this fresh)], remote = Suc 0\<rparr>\<rparr>)"
  by (simp add: doGetToken_def request_def axios_request_def check_outcome_def service_def ok_def
      fresh_def)

lemma getToken_service:
  "getToken (service ex) fresh =
     (Inr (bearer (issued ex 0)),
      \<lparr>this = (this fresh)\<lparr>tokenInfo := Some (issued ex 0)\<rparr>,
       net = \<lparr>sent = [token_config (this fresh)], remote = Suc 0\<rparr>\<rparr>)"
proof -
  have "cached_token (this fresh) = None"
    by (simp add: cached_token_def fresh_def new_Client_def)
  then show ?thesis
    by (simp add: getToken_miss doGetToken_service)
qed

section \<open>The token\<close>




lemma getToken_returns_stored:
  assumes "getToken R s0 = (Inr a, s1)"
  shows "\<exists>t. tokenInfo (this s1) = Some t \<and> a = bearer t"
proof (cases "cached_token (this s0)")
  case None
  obtain x s2 where d: "doGetToken R s0 = (x, s2)" by (cases "doGetToken R s0")
  with None assms show ?thesis
    by (cases x) (auto simp: getToken_miss)
next
  case (Some b)
  with assms have "s1 = s0" "a = b" by (simp_all add: getToken_hit)
  with Some cached_token_SomeD [of "this s0" b] show ?thesis by auto
qed

lemma getToken_calls_hit:
  "cached_token (this s) = Some a \<Longrightarrow> getToken_calls R n s = (replicate n (Inr a), s)"
  by (induction n) (simp_all add: getToken_hit)

text \<open>
  C2, amended. In every state in which \<open>tokenInfo\<close> is non-null and its expiration is nonzero,
  \<open>getToken\<close> returns the cached \<open>token_type\<close> and \<open>token\<close> joined by a space and leaves
  the whole state as it was: no request is sent and \<open>tokenInfo\<close> is not modified. Hence after
  one successful call that leaves a token with a nonzero expiration in \<open>tokenInfo\<close>, any number
  of further calls return the same string and send nothing.
\<close>

theorem getToken_returns_cached_token:
  "(tokenInfo (this s) = Some t \<and> expiration t \<noteq> 0 \<longrightarrow>
      getToken R s = (Inr (token_type t @ '' '' @ token t), s))
   \<and> (getToken R s0 = (Inr a, s1) \<and> tokenInfo (this s1) = Some t1 \<and> expiration t1 \<noteq> 0 \<longrightarrow>
        (\<forall>n. getToken_calls R n s1 = (replicate n (Inr a), s1)))"
proof (intro conjI impI)
  assume "tokenInfo (this s) = Some t \<and> expiration t \<noteq> 0"
  then have "cached_token (this s) = Some (bearer t)"
    by (simp add: cached_token_Some)
  then show "getToken R s = (Inr (token_type t @ '' '' @ token t), s)"
    by (simp add: getToken_hit bearer_def)
next
  assume a: "getToken R s0 = (Inr a, s1) \<and> tokenInfo (this s1) = Some t1 \<and> expiration t1 \<noteq> 0"
  with getToken_returns_stored [of R s0 a s1] have "a = bearer t1" by auto
  with a have "cached_token (this s1) = Some a"
    by (simp add: cached_token_Some)
  then show "\<forall>n. getToken_calls R n s1 = (replicate n (Inr a), s1)"
    by (simp add: getToken_calls_hit)
qed

theorem getToken_returns_cached_token_witness:
  "getToken (service 5) (holding 1000) = (Inr ''Bearer old'', holding 1000)
   \<and> fst (getToken_calls (service 1700000000) 3 (snd (getToken (service 1700000000) fresh))) =
       [Inr ''Bearer first'', Inr ''Bearer first'', Inr ''Bearer first'']
   \<and> sent (net (snd (getToken_calls (service 1700000000) 3
        (snd (getToken (service 1700000000) fresh))))) =
       sent (net (snd (getToken (service 1700000000) fresh)))"
proof -
  have h1: "tokenInfo (this (holding 1000)) =
      Some \<lparr>token = ''old'', token_type = ''Bearer'', expiration = 1000\<rparr>"
    by (simp add: holding_def)
  have h2: "tokenInfo (this (snd (getToken (service 1700000000) fresh))) =
      Some (issued 1700000000 0)"
    by (simp add: getToken_service)
  have g: "getToken (service 1700000000) fresh =
      (Inr ''Bearer first'', snd (getToken (service 1700000000) fresh))"
    by (simp add: getToken_service bearer_def issued_def)
  have e: "expiration (issued 1700000000 0) \<noteq> 0"
    by (simp add: issued_def)
  from h1 getToken_returns_cached_token [where s = "holding 1000" and R = "service 5"
      and t = "\<lparr>token = ''old'', token_type = ''Bearer'', expiration = 1000\<rparr>"]
  have a: "getToken (service 5) (holding 1000) = (Inr ''Bearer old'', holding 1000)"
    by simp
  from g h2 e getToken_returns_cached_token [where R = "service 1700000000" and ?s0.0 = fresh
      and a = "''Bearer first''" and ?s1.0 = "snd (getToken (service 1700000000) fresh)"
      and ?t1.0 = "issued 1700000000 0"]
  have b: "getToken_calls (service 1700000000) n (snd (getToken (service 1700000000) fresh)) =
      (replicate n (Inr ''Bearer first''), snd (getToken (service 1700000000) fresh))" for n
    by blast
  have r: "replicate 3 x = [x, x, x]" for x :: "error + string"
    by (simp add: numeral_3_eq_3)
  show ?thesis
    by (simp add: a b r)
qed

text \<open>
  C2 as it is written fails when the service issues tokens whose expiration is 0: the first
  call succeeds, and the second call fetches again and returns another string.
\<close>

theorem getToken_refetches_zero_expiration:
  "fst (getToken (service 0) fresh) = Inr ''Bearer first''
   \<and> fst (getToken (service 0) (snd (getToken (service 0) fresh))) = Inr ''Bearer second''
   \<and> token_requests (sent (net (snd (getToken (service 0) (snd (getToken (service 0) fresh))))))
       = 2"
  by (simp add: getToken_service)
    (simp add: getToken_def cached_token_def issued_def doGetToken_def request_def
      axios_request_def check_outcome_def service_def ok_def bearer_def token_requests_def
      token_config_def)

text \<open>
  C3, amended. \<open>getToken\<close> fetches a token exactly when \<open>tokenInfo\<close> is null or its expiration
  is 0. It reads no clock: a cached token whose nonzero expiration lies in the past, whatever the
  time of the call, is returned as it is and no request is sent.
\<close>

theorem getToken_ignores_time:
  "((sent (net (snd (getToken R s))) \<noteq> sent (net s)) =
      (tokenInfo (this s) = None \<or> (\<exists>t0. tokenInfo (this s) = Some t0 \<and> expiration t0 = 0)))
   \<and> (\<forall>now t. tokenInfo (this s) = Some t \<and> expiration t \<noteq> 0 \<and> token_expired now t \<longrightarrow>
         getToken R s = (Inr (token_type t @ '' '' @ token t), s))"
proof (intro conjI allI impI)
  show "(sent (net (snd (getToken R s))) \<noteq> sent (net s)) =
      (tokenInfo (this s) = None \<or> (\<exists>t0. tokenInfo (this s) = Some t0 \<and> expiration t0 = 0))"
    by (simp add: getToken_sent_cases cached_token_None_iff)
next
  fix now t
  assume "tokenInfo (this s) = Some t \<and> expiration t \<noteq> 0 \<and> token_expired now t"
  then have "cached_token (this s) = Some (bearer t)"
    by (simp add: cached_token_Some)
  then show "getToken R s = (Inr (token_type t @ '' '' @ token t), s)"
    by (simp add: getToken_hit bearer_def)
qed

theorem getToken_ignores_time_witness:
  "token_expired 2000 \<lparr>token = ''old'', token_type = ''Bearer'', expiration = 1000\<rparr>
   \<and> getToken (service 1700000000) (holding 1000) = (Inr ''Bearer old'', holding 1000)
   \<and> sent (net (snd (getToken (service 1700000000) (holding 0)))) \<noteq> sent (net (holding 0))"
proof -
  have h: "tokenInfo (this (holding ex)) =
      Some \<lparr>token = ''old'', token_type = ''Bearer'', expiration = ex\<rparr>" for ex
    by (simp add: holding_def)
  have x: "token_expired 2000 \<lparr>token = ''old'', token_type = ''Bearer'', expiration = 1000\<rparr>"
    by (simp add: token_expired_def)
  note fact = getToken_ignores_time [of "service 1700000000"]
  from fact [of "holding 1000"] h [of 1000] x
  have a: "getToken (service 1700000000) (holding 1000) = (Inr ''Bearer old'', holding 1000)"
    by auto
  from fact [of "holding 0"] h [of 0]
  have b: "sent (net (snd (getToken (service 1700000000) (holding 0)))) \<noteq> sent (net (holding 0))"
    by simp
  from x a b show ?thesis by simp
qed

text \<open>
  C3 as it is written fails: at time 2000 the cached token expired at 1000, and \<open>getToken\<close>
  returns it and sends nothing, where the service would have issued \<open>first\<close>.
\<close>

theorem getToken_returns_expired_token:
  "token_expired 2000 \<lparr>token = ''old'', token_type = ''Bearer'', expiration = 1000\<rparr>
   \<and> tokenInfo (this (holding 1000)) =
       Some \<lparr>token = ''old'', token_type = ''Bearer'', expiration = 1000\<rparr>
   \<and> getToken (service 1700000000) (holding 1000) = (Inr ''Bearer old'', holding 1000)
   \<and> fst (getToken (service 1700000000) fresh) = Inr ''Bearer first''"
  by (simp add: token_expired_def getToken_service bearer_def issued_def)
    (simp add: holding_def getToken_def cached_token_def bearer_def)

section \<open>The request envelope\<close>

text \<open>
  C4. When the transport resolves with a response, \<open>request\<close> throws exactly when the status is
  outside the range from 200 up to and excluding 300, or the body's \<open>code\<close> differs from 200;
  otherwise it returns the body's \<open>data\<close>. When the transport rejects, there is no response
  and \<open>request\<close> throws the transport's error.
\<close>

theorem request_throws_iff:
  "(\<forall>resp srv. T cfg (remote (net s)) = (Resolved resp, srv) \<longrightarrow>
      (isl (fst (request T cfg s)) =
         (status resp < 200 \<or> 300 \<le> status resp \<or> code (body resp) \<noteq> 200))
      \<and> (\<not> isl (fst (request T cfg s)) \<longrightarrow> fst (request T cfg s) = Inr (data (body resp))))
   \<and> (\<forall>m srv. T cfg (remote (net s)) = (Rejected m, srv) \<longrightarrow>
         fst (request T cfg s) = Inl (TransportError m))"
  by (auto simp: request_result check_outcome_def)

theorem request_throws_iff_witness:
  "fst (request (envs_get (service 5)) (get_env_config ''Bearer first'' ''PATH'') fresh) =
     Inr known_envs
   \<and> fst (request (envs_get down) (get_env_config ''Bearer first'' ''PATH'') fresh) =
       Inl (TransportError ''timeout'')"
proof -
  have a: "envs_get (service 5) (get_env_config ''Bearer first'' ''PATH'') (remote (net fresh)) =
      (Resolved \<lparr>status = 200, body = \<lparr>code = 200, data = known_envs\<rparr>\<rparr>, 0)"
    by (simp add: service_def ok_def fresh_def)
  have b: "envs_get down (get_env_config ''Bearer first'' ''PATH'') (remote (net fresh)) =
      (Rejected ''timeout'', 0)"
    by (simp add: down_def fresh_def)
  from a request_throws_iff [of "envs_get (service 5)" "get_env_config ''Bearer first'' ''PATH''" fresh]
  have "fst (request (envs_get (service 5)) (get_env_config ''Bearer first'' ''PATH'') fresh) =
      Inr known_envs"
    by simp
  moreover
  from b request_throws_iff [of "envs_get down" "get_env_config ''Bearer first'' ''PATH''" fresh]
  have "fst (request (envs_get down) (get_env_config ''Bearer first'' ''PATH'') fresh) =
      Inl (TransportError ''timeout'')"
    by simp
  ultimately show ?thesis by simp
qed

text \<open>
  C5. For every configuration, \<open>request\<close> hands the configuration to the transport exactly
  once: the list of calls grows by that one configuration and the service has answered once. A
  transport error, a status outside 2xx and a body code other than 200 each come back to the
  caller as the error of that one call; nothing is sent again.
\<close>

theorem request_sends_once:
  "sent (net (snd (request T cfg s))) = sent (net s) @ [cfg]
   \<and> remote (net (snd (request T cfg s))) = snd (T cfg (remote (net s)))
   \<and> (\<forall>m. fst (T cfg (remote (net s))) = Rejected m \<longrightarrow>
         fst (request T cfg s) = Inl (TransportError m))
   \<and> (\<forall>resp. fst (T cfg (remote (net s))) = Resolved resp
         \<and> (status resp < 200 \<or> 300 \<le> status resp) \<longrightarrow>
         fst (request T cfg s) = Inl (RequestFail_status (status resp)))
   \<and> (\<forall>resp. fst (T cfg (remote (net s))) = Resolved resp
         \<and> 200 \<le> status resp \<and> status resp < 300 \<and> code (body resp) \<noteq> 200 \<longrightarrow>
         fst (request T cfg s) = Inl (RequestFail_code (code (body resp))))"
  by (auto simp: request_sent request_remote request_result check_outcome_def)

theorem request_sends_once_witness:
  "request (auth_token down) (token_config (this fresh)) fresh =
     (Inl (TransportError ''timeout''),
      fresh\<lparr>net := \<lparr>sent = [token_config (this fresh)], remote = 0\<rparr>\<rparr>)"
proof -
  have r: "auth_token down (token_config (this fresh)) (remote (net fresh)) =
      (Rejected ''timeout'', 0)"
    by (simp add: down_def fresh_def)
  have e: "sent (net fresh) = []"
    by (simp add: fresh_def)
  have t: "this (snd (request (auth_token down) (token_config (this fresh)) fresh)) = this fresh"
    by (rule request_this)
  from r e request_sends_once [of "auth_token down" "token_config (this fresh)" fresh]
  have "sent (net (snd (request (auth_token down) (token_config (this fresh)) fresh))) =
        [token_config (this fresh)]
      \<and> remote (net (snd (request (auth_token down) (token_config (this fresh)) fresh))) = 0
      \<and> fst (request (auth_token down) (token_config (this fresh)) fresh) =
          Inl (TransportError ''timeout'')"
    by simp
  with t show ?thesis
    by (cases "request (auth_token down) (token_config (this fresh)) fresh")
      (auto simp: fresh_def)
qed

section \<open>Looking a variable up and updating it\<close>

lemma getEnv_service:
  "getEnv (service 5) ''PATH'' fresh =
     (Inr (Some \<lparr>id' = 8, name = ''PATH'', value' = ''b'', remarks = []\<rparr>),
      \<lparr>this = (this fresh)\<lparr>tokenInfo := Some (issued 5 0)\<rparr>,
       net = \<lparr>sent = [token_config (this fresh), get_env_config ''Bearer first'' ''PATH''],
              remote = Suc 0\<rparr>\<rparr>)"
  by (simp add: getEnv_def getToken_service)
    (simp add: request_def axios_request_def check_outcome_def service_def ok_def known_envs_def
      bearer_def issued_def)

lemma getToken_down:
  "getToken down fresh =
     (Inl (TransportError ''timeout''),
      fresh\<lparr>net := \<lparr>sent = [token_config (this fresh)], remote = 0\<rparr>\<rparr>)"
proof -
  have "cached_token (this fresh) = None"
    by (simp add: cached_token_def fresh_def new_Client_def)
  then show ?thesis
    by (simp add: getToken_miss doGetToken_def request_def axios_request_def check_outcome_def
        down_def)
      (simp add: fresh_def)
qed

text \<open>
  C6. For every name, once the token is there, \<open>getEnv\<close> sends one query to \<open>/open/envs\<close>
  with \<open>searchValue\<close> set to that name. When the query returns a list, \<open>getEnv\<close> returns the
  first record of the list whose \<open>name\<close> equals the requested name, and when no record of the
  list has that name it throws the error with the message \<open>Env '<name>' Not Found\<close>.
\<close>

theorem getEnv_returns_first_match:
  "getToken R s = (Inr auth, s1) \<Longrightarrow>
     sent (net (snd (getEnv R n s))) =
       sent (net s1) @
         [\<lparr>http_method = GET, url = ''/open/envs'', headers = [(''Authorization'', auth)],
           params = [(''searchValue'', n)], payload = None\<rparr>]
     \<and> (\<forall>envs s2. request (envs_get R) (get_env_config auth n) s1 = (Inr envs, s2) \<longrightarrow>
           (\<forall>pre env post.
               envs = pre @ env # post \<and> name env = n \<and> (\<forall>x\<in>set pre. name x \<noteq> n) \<longrightarrow>
               getEnv R n s = (Inr (Some env), s2))
           \<and> ((\<forall>x\<in>set envs. name x \<noteq> n) \<longrightarrow>
                getEnv R n s =
                  (Inl (Error (''Env '' @ [CHR 0x27] @ n @ [CHR 0x27] @ '' Not Found'')), s2)))"
proof -
  assume g: "getToken R s = (Inr auth, s1)"
  have "sent (net (snd (getEnv R n s))) = sent (net s1) @ [get_env_config auth n]"
    by (rule getEnv_sent [OF g])
  moreover have "getEnv R n s = (Inr (Some env), s2)"
    if "request (envs_get R) (get_env_config auth n) s1 = (Inr (pre @ env # post), s2)"
      and "name env = n" and "\<forall>x\<in>set pre. name x \<noteq> n"
    for pre env post s2
    using that by (simp add: getEnv_token_ok [OF g] find_env_first)
  moreover have "getEnv R n s =
      (Inl (Error (''Env '' @ [CHR 0x27] @ n @ [CHR 0x27] @ '' Not Found'')), s2)"
    if "request (envs_get R) (get_env_config auth n) s1 = (Inr envs, s2)"
      and "\<forall>x\<in>set envs. name x \<noteq> n"
    for envs s2
  proof -
    from that(2) have "find_env n envs = None"
      by (simp add: find_env_None)
    with that(1) show ?thesis
      by (simp add: getEnv_token_ok [OF g] not_found_message_def quote_def)
  qed
  ultimately show ?thesis
    by (auto simp: get_env_config_def)
qed

theorem getEnv_returns_first_match_witness:
  "fst (getToken (service 5) fresh) = Inr ''Bearer first''
   \<and> fst (getEnv (service 5) ''PATH'' fresh) =
       Inr (Some \<lparr>id' = 8, name = ''PATH'', value' = ''b'', remarks = []\<rparr>)
   \<and> fst (getEnv (service 5) ''PAT'' fresh) =
       Inl (Error (''Env '' @ [CHR 0x27] @ ''PAT'' @ [CHR 0x27] @ '' Not Found''))"
proof -
  let ?s1 = "\<lparr>this = (this fresh)\<lparr>tokenInfo := Some (issued 5 0)\<rparr>,
    net = \<lparr>sent = [token_config (this fresh)], remote = Suc 0\<rparr>\<rparr>"
  have g: "getToken (service 5) fresh = (Inr ''Bearer first'', ?s1)"
    by (simp add: getToken_service bearer_def issued_def)
  have q: "request (envs_get (service 5)) (get_env_config ''Bearer first'' n) ?s1 =
      (Inr ([\<lparr>id' = 7, name = ''PATH_X'', value' = ''a'', remarks = []\<rparr>]
          @ \<lparr>id' = 8, name = ''PATH'', value' = ''b'', remarks = []\<rparr>
          # [\<lparr>id' = 9, name = ''PATH'', value' = ''c'', remarks = []\<rparr>]),
       ?s1\<lparr>net := \<lparr>sent = [token_config (this fresh), get_env_config ''Bearer first'' n],
              remote = Suc 0\<rparr>\<rparr>)" for n
    by (simp add: request_def axios_request_def check_outcome_def service_def ok_def
        known_envs_def)
  note fact = getEnv_returns_first_match [OF g, THEN conjunct2, rule_format, OF q]
  have a: "fst (getEnv (service 5) ''PATH'' fresh) =
      Inr (Some \<lparr>id' = 8, name = ''PATH'', value' = ''b'', remarks = []\<rparr>)"
    using fact [of "''PATH''", THEN conjunct1, rule_format,
        where pre = "[\<lparr>id' = 7, name = ''PATH_X'', value' = ''a'', remarks = []\<rparr>]"
          and env = "\<lparr>id' = 8, name = ''PATH'', value' = ''b'', remarks = []\<rparr>"
          and post = "[\<lparr>id' = 9, name = ''PATH'', value' = ''c'', remarks = []\<rparr>]"]
    by simp
  have b: "fst (getEnv (service 5) ''PAT'' fresh) =
      Inl (Error (''Env '' @ [CHR 0x27] @ ''PAT'' @ [CHR 0x27] @ '' Not Found''))"
    using fact [of "''PAT''", THEN conjunct2]
    by simp
  from g a b show ?thesis by simp
qed

lemma setEnv_lookup_fails: "getEnv R n s = (Inl e, s1) \<Longrightarrow> setEnv R n v r s = (Inl e, s1)"
  by (simp add: setEnv_def)

lemma setEnv_lookup_ok:
  "getEnv R n s = (Inr (Some env), s1) \<Longrightarrow>
   setEnv R n v r s =
     (case getToken R s1 of
        (Inl e, s2) \<Rightarrow> (Inl e, s2)
      | (Inr auth, s2) \<Rightarrow> request (envs_put R) (put_env_config auth env n v r) s2)"
  by (simp add: setEnv_def)

lemma puts_put_env_config:
  "puts (cfgs @ [put_env_config auth env n v r]) = puts cfgs @ [put_env_config auth env n v r]"
  by (simp add: puts_def put_env_config_def)

lemma getEnv_leaves_token:
  assumes "getEnv R n s = (Inr (Some env), s1)"
  shows "\<exists>t. tokenInfo (this s1) = Some t"
proof -
  obtain x s0 where g: "getToken R s = (x, s0)" by (cases "getToken R s")
  from getEnv_this [OF g, of n] assms have t: "this s1 = this s0" by simp
  show ?thesis
  proof (cases x)
    case (Inl e)
    with g assms show ?thesis by (simp add: getEnv_token_fails)
  next
    case (Inr auth)
    with g getToken_returns_stored [of R s auth s0] t show ?thesis by auto
  qed
qed

lemma setEnv_token_fails:
  "getEnv R n s = (Inr (Some env), s1) \<Longrightarrow> getToken R s1 = (Inl e, s2) \<Longrightarrow>
   setEnv R n v r s = (Inl e, s2)"
  by (simp add: setEnv_lookup_ok)

text \<open>The client against the service that issues one token of expiration 0.\<close>

lemma getEnv_flaky:
  "getEnv flaky ''PATH'' fresh =
     (Inr (Some \<lparr>id' = 8, name = ''PATH'', value' = ''b'', remarks = []\<rparr>),
      \<lparr>this = (this fresh)\<lparr>tokenInfo := Some (issued 0 0)\<rparr>,
       net = \<lparr>sent = [token_config (this fresh), get_env_config ''Bearer first'' ''PATH''],
              remote = Suc 0\<rparr>\<rparr>)"
proof -
  have "cached_token (this fresh) = None"
    by (simp add: cached_token_def fresh_def new_Client_def)
  then have "getToken flaky fresh =
      (Inr (bearer (issued 0 0)),
       \<lparr>this = (this fresh)\<lparr>tokenInfo := Some (issued 0 0)\<rparr>,
        net = \<lparr>sent = [token_config (this fresh)], remote = Suc 0\<rparr>\<rparr>)"
    by (simp add: getToken_miss doGetToken_def request_def axios_request_def check_outcome_def
        flaky_def ok_def fresh_def)
  then show ?thesis
    by (simp add: getEnv_def)
      (simp add: request_def axios_request_def check_outcome_def flaky_def ok_def known_envs_def
        bearer_def issued_def)
qed

lemma getToken_flaky_again:
  "getToken flaky
     \<lparr>this = (this fresh)\<lparr>tokenInfo := Some (issued 0 0)\<rparr>,
      net = \<lparr>sent = [token_config (this fresh), get_env_config ''Bearer first'' ''PATH''],
             remote = Suc 0\<rparr>\<rparr> =
   (Inl (TransportError ''timeout''),
    \<lparr>this = (this fresh)\<lparr>tokenInfo := Some (issued 0 0)\<rparr>,
     net = \<lparr>sent = [token_config (this fresh), get_env_config ''Bearer first'' ''PATH'',
                    token_config (this fresh)],
            remote = Suc 0\<rparr>\<rparr>)"
proof -
  have "cached_token ((this fresh)\<lparr>tokenInfo := Some (issued 0 0)\<rparr>) = None"
    by (simp add: cached_token_def issued_def)
  then show ?thesis
    by (simp add: getToken_miss doGetToken_def request_def axios_request_def check_outcome_def
        flaky_def token_config_def)
qed

text \<open>
  C7, amended. \<open>setEnv\<close> first looks the variable up with \<open>getEnv\<close>. When the lookup throws,
  \<open>setEnv\<close> throws the same error and the PUT requests sent are those sent before the call: the
  variable is not updated. When the lookup returns a record, \<open>setEnv\<close> asks \<open>getToken\<close> for the
  Authorization value, which is there without a request whenever the token the lookup left has a
  nonzero expiration. When \<open>getToken\<close> throws, \<open>setEnv\<close> throws the same error and again no PUT
  is sent. When \<open>getToken\<close> returns, \<open>setEnv\<close> sends one PUT to \<open>/open/envs\<close> carrying the id of
  the record looked up with the name, the value and the remarks, and returns what \<open>request\<close>
  returns for it: the data of the response when the request succeeds.
\<close>

theorem setEnv_looks_up_then_puts:
  "(\<forall>e s1. getEnv R n s = (Inl e, s1) \<longrightarrow>
      setEnv R n v r s = (Inl e, s1) \<and> puts (sent (net s1)) = puts (sent (net s)))
   \<and> (\<forall>env s1 e s2.
         getEnv R n s = (Inr (Some env), s1) \<and> getToken R s1 = (Inl e, s2) \<longrightarrow>
         setEnv R n v r s = (Inl e, s2) \<and> puts (sent (net s2)) = puts (sent (net s)))
   \<and> (\<forall>env s1 auth s2.
         getEnv R n s = (Inr (Some env), s1) \<and> getToken R s1 = (Inr auth, s2) \<longrightarrow>
         setEnv R n v r s = request (envs_put R) (put_env_config auth env n v r) s2
         \<and> sent (net (snd (setEnv R n v r s))) = sent (net s2) @ [put_env_config auth env n v r]
         \<and> puts (sent (net (snd (setEnv R n v r s)))) =
             puts (sent (net s)) @
               [\<lparr>http_method = PUT, url = ''/open/envs'',
                 headers = [(''Authorization'', auth), (''Content-Type'', ''application/json'')],
                 params = [],
                 payload =
                   Some \<lparr>upd_id = id' env, upd_name = n, upd_value = v, upd_remarks = r\<rparr>\<rparr>]
         \<and> (\<forall>resp srv.
               envs_put R (put_env_config auth env n v r) (remote (net s2)) = (Resolved resp, srv)
               \<and> 200 \<le> status resp \<and> status resp < 300 \<and> code (body resp) = 200 \<longrightarrow>
               fst (setEnv R n v r s) = Inr (data (body resp))))
   \<and> (\<forall>env s1. getEnv R n s = (Inr (Some env), s1) \<longrightarrow>
         (\<exists>t. tokenInfo (this s1) = Some t
            \<and> (expiration t \<noteq> 0 \<longrightarrow>
                 getToken R s1 = (Inr (token_type t @ '' '' @ token t), s1))))"
proof (intro conjI allI impI)
  fix e s1
  assume l: "getEnv R n s = (Inl e, s1)"
  then show "setEnv R n v r s = (Inl e, s1)"
    by (rule setEnv_lookup_fails)
  from l getEnv_puts [of R n s] show "puts (sent (net s1)) = puts (sent (net s))"
    by simp
next
  fix env s1 e s2
  assume a: "getEnv R n s = (Inr (Some env), s1) \<and> getToken R s1 = (Inl e, s2)"
  then show "setEnv R n v r s = (Inl e, s2)"
    by (simp add: setEnv_token_fails)
  from a getEnv_puts [of R n s] getToken_puts [of R s1]
  show "puts (sent (net s2)) = puts (sent (net s))"
    by simp
next
  fix env s1 auth s2
  assume a: "getEnv R n s = (Inr (Some env), s1) \<and> getToken R s1 = (Inr auth, s2)"
  let ?cfg = "put_env_config auth env n v r"
  from a show eq: "setEnv R n v r s = request (envs_put R) ?cfg s2"
    by (simp add: setEnv_lookup_ok)
  show "sent (net (snd (setEnv R n v r s))) = sent (net s2) @ [?cfg]"
    by (simp add: eq request_sent)
  from a getEnv_puts [of R n s] getToken_puts [of R s1]
  have "puts (sent (net s2)) = puts (sent (net s))"
    by simp
  then have "puts (sent (net (snd (setEnv R n v r s)))) = puts (sent (net s)) @ [?cfg]"
    by (simp add: eq request_sent puts_put_env_config)
  then show "puts (sent (net (snd (setEnv R n v r s)))) =
      puts (sent (net s)) @
        [\<lparr>http_method = PUT, url = ''/open/envs'',
          headers = [(''Authorization'', auth), (''Content-Type'', ''application/json'')],
          params = [],
          payload = Some \<lparr>upd_id = id' env, upd_name = n, upd_value = v, upd_remarks = r\<rparr>\<rparr>]"
    by (simp add: put_env_config_def)
  fix resp srv
  assume "envs_put R ?cfg (remote (net s2)) = (Resolved resp, srv)
      \<and> 200 \<le> status resp \<and> status resp < 300 \<and> code (body resp) = 200"
  then show "fst (setEnv R n v r s) = Inr (data (body resp))"
    by (simp add: eq request_result check_outcome_def)
next
  fix env s1
  assume l: "getEnv R n s = (Inr (Some env), s1)"
  then obtain t where t: "tokenInfo (this s1) = Some t"
    using getEnv_leaves_token by blast
  have "getToken R s1 = (Inr (token_type t @ '' '' @ token t), s1)" if "expiration t \<noteq> 0"
    using t that by (simp add: getToken_hit cached_token_Some bearer_def)
  with t show "\<exists>t. tokenInfo (this s1) = Some t
      \<and> (expiration t \<noteq> 0 \<longrightarrow> getToken R s1 = (Inr (token_type t @ '' '' @ token t), s1))"
    by blast
qed

theorem setEnv_looks_up_then_puts_witness:
  "fst (getEnv down ''PATH'' fresh) = Inl (TransportError ''timeout'')
   \<and> fst (setEnv down ''PATH'' ''new'' None fresh) = Inl (TransportError ''timeout'')
   \<and> puts (sent (net (snd (setEnv down ''PATH'' ''new'' None fresh)))) = []
   \<and> fst (getEnv flaky ''PATH'' fresh) =
       Inr (Some \<lparr>id' = 8, name = ''PATH'', value' = ''b'', remarks = []\<rparr>)
   \<and> fst (setEnv flaky ''PATH'' ''new'' None fresh) = Inl (TransportError ''timeout'')
   \<and> puts (sent (net (snd (setEnv flaky ''PATH'' ''new'' None fresh)))) = []
   \<and> fst (getEnv (service 5) ''PATH'' fresh) =
       Inr (Some \<lparr>id' = 8, name = ''PATH'', value' = ''b'', remarks = []\<rparr>)
   \<and> fst (setEnv (service 5) ''PATH'' ''new'' (Some ''note'') fresh) =
       Inr \<lparr>id' = 8, name = ''PATH'', value' = ''new'', remarks = ''note''\<rparr>
   \<and> puts (sent (net (snd (setEnv (service 5) ''PATH'' ''new'' (Some ''note'') fresh)))) =
       [\<lparr>http_method = PUT, url = ''/open/envs'',
         headers = [(''Authorization'', ''Bearer first''), (''Content-Type'', ''application/json'')],
         params = [],
         payload = Some \<lparr>upd_id = 8, upd_name = ''PATH'', upd_value = ''new'',
           upd_remarks = Some ''note''\<rparr>\<rparr>]"
proof -
  let ?d = "fresh\<lparr>net := \<lparr>sent = [token_config (this fresh)], remote = 0\<rparr>\<rparr>"
  let ?e = "\<lparr>id' = 8, name = ''PATH'', value' = ''b'', remarks = []\<rparr>"
  let ?s1 = "\<lparr>this = (this fresh)\<lparr>tokenInfo := Some (issued 5 0)\<rparr>,
    net = \<lparr>sent = [token_config (this fresh), get_env_config ''Bearer first'' ''PATH''],
           remote = Suc 0\<rparr>\<rparr>"
  let ?cfg = "put_env_config ''Bearer first'' ?e ''PATH'' ''new'' (Some ''note'')"
  have p0: "puts (sent (net fresh)) = []"
    by (simp add: fresh_def puts_def)
  have l1: "getEnv down ''PATH'' fresh = (Inl (TransportError ''timeout''), ?d)"
    by (simp add: getEnv_token_fails [OF getToken_down])
  have l2: "getEnv (service 5) ''PATH'' fresh = (Inr (Some ?e), ?s1)"
    by (rule getEnv_service)
  have g2: "getToken (service 5) ?s1 = (Inr ''Bearer first'', ?s1)"
    by (simp add: getToken_hit cached_token_def issued_def bearer_def)
  have r2: "envs_put (service 5) ?cfg (remote (net ?s1)) =
      (Resolved \<lparr>status = 200,
         body = \<lparr>code = 200,
           data = \<lparr>id' = 8, name = ''PATH'', value' = ''new'', remarks = ''note''\<rparr>\<rparr>\<rparr>, Suc 0)"
    by (simp add: service_def ok_def updated_def put_env_config_def)
  note down_fact =
    setEnv_looks_up_then_puts [of down "''PATH''" fresh "''new''" None, THEN conjunct1,
      rule_format, OF l1]
  note flaky_fact =
    setEnv_looks_up_then_puts [of flaky "''PATH''" fresh "''new''" None, THEN conjunct2,
      THEN conjunct1, rule_format, OF conjI [OF getEnv_flaky getToken_flaky_again]]
  note up_fact =
    setEnv_looks_up_then_puts [of "service 5" "''PATH''" fresh "''new''" "Some ''note''",
      THEN conjunct2, THEN conjunct2, THEN conjunct1, rule_format, OF conjI [OF l2 g2]]
  from down_fact p0
  have a: "fst (setEnv down ''PATH'' ''new'' None fresh) = Inl (TransportError ''timeout'')
      \<and> puts (sent (net (snd (setEnv down ''PATH'' ''new'' None fresh)))) = []"
    by simp
  from flaky_fact p0
  have f: "fst (setEnv flaky ''PATH'' ''new'' None fresh) = Inl (TransportError ''timeout'')
      \<and> puts (sent (net (snd (setEnv flaky ''PATH'' ''new'' None fresh)))) = []"
    by simp
  from r2 up_fact [THEN conjunct2, THEN conjunct2, THEN conjunct2, rule_format,
      where resp = "\<lparr>status = 200,
        body = \<lparr>code = 200,
          data = \<lparr>id' = 8, name = ''PATH'', value' = ''new'', remarks = ''note''\<rparr>\<rparr>\<rparr>"
        and srv = "Suc 0"]
  have b: "fst (setEnv (service 5) ''PATH'' ''new'' (Some ''note'') fresh) =
      Inr \<lparr>id' = 8, name = ''PATH'', value' = ''new'', remarks = ''note''\<rparr>"
    by simp
  from up_fact [THEN conjunct2, THEN conjunct2, THEN conjunct1] p0
  have c: "puts (sent (net (snd (setEnv (service 5) ''PATH'' ''new'' (Some ''note'') fresh)))) =
      [\<lparr>http_method = PUT, url = ''/open/envs'',
        headers = [(''Authorization'', ''Bearer first''), (''Content-Type'', ''application/json'')],
        params = [],
        payload = Some \<lparr>upd_id = 8, upd_name = ''PATH'', upd_value = ''new'',
          upd_remarks = Some ''note''\<rparr>\<rparr>]"
    by simp
  from a f b c show ?thesis
    by (simp add: l1 l2 getEnv_flaky)
qed

text \<open>
  C7 as it is written fails: it makes the PUT follow from the success of the lookup alone. The
  service issues a first token of expiration 0 and rejects the next token request. The lookup
  returns the record with id 8; \<open>getToken\<close> at line 126 finds the expiration 0, asks for a
  token again and is rejected; \<open>setEnv\<close> throws that error and no PUT has been sent.
\<close>

theorem setEnv_lookup_succeeds_without_put:
  "fst (getEnv flaky ''PATH'' fresh) =
     Inr (Some \<lparr>id' = 8, name = ''PATH'', value' = ''b'', remarks = []\<rparr>)
   \<and> fst (setEnv flaky ''PATH'' ''new'' None fresh) = Inl (TransportError ''timeout'')
   \<and> puts (sent (net (snd (setEnv flaky ''PATH'' ''new'' None fresh)))) = []
   \<and> sent (net (snd (setEnv flaky ''PATH'' ''new'' None fresh))) =
       [token_config (this fresh), get_env_config ''Bearer first'' ''PATH'',
        token_config (this fresh)]"
  by (simp add: setEnv_token_fails [OF getEnv_flaky getToken_flaky_again] getEnv_flaky)
    (simp add: puts_def token_config_def get_env_config_def)

text \<open>
  C9. The \<open>Not Exist\<close> branch of \<open>setEnv\<close> cannot be reached. For every name, \<open>getEnv\<close> throws
  or returns a record of the list the query returned; it never returns a null or undefined
  reference, so the test \<open>!env\<close> never holds and \<open>setEnv\<close> never throws the error with the
  message \<open>Env '<name>' Not Exist\<close>.
\<close>

theorem setEnv_not_exist_unreachable:
  "fst (getEnv R n s) \<noteq> Inr None
   \<and> fst (setEnv R n v r s) \<noteq> Inl (Error (''Env '' @ [CHR 0x27] @ n @ [CHR 0x27] @ '' Not Exist''))
   \<and> (isl (fst (getEnv R n s))
       \<or> (\<exists>auth s1 envs s2 env.
             getToken R s = (Inr auth, s1)
             \<and> request (envs_get R) (get_env_config auth n) s1 = (Inr envs, s2)
             \<and> env \<in> set envs \<and> getEnv R n s = (Inr (Some env), s2)))"
proof (intro conjI)
  show "fst (getEnv R n s) \<noteq> Inr None"
    by (rule getEnv_never_null)
  show "fst (setEnv R n v r s) \<noteq>
      Inl (Error (''Env '' @ [CHR 0x27] @ n @ [CHR 0x27] @ '' Not Exist''))"
  proof (cases "getEnv R n s")
    case (Pair x s1)
    show ?thesis
    proof (cases x)
      case (Inl e)
      with Pair have "setEnv R n v r s = (Inl e, s1)"
        by (simp add: setEnv_lookup_fails)
      moreover from Pair Inl have "e \<noteq> Error (''Env '' @ [CHR 0x27] @ n @ [CHR 0x27] @ '' Not Exist'')"
        by (auto simp: getEnv_def request_def check_outcome_def getToken_def doGetToken_def
            not_found_message_def quote_def
            split: prod.splits sum.splits option.splits outcome.splits if_splits)
      ultimately show ?thesis by simp
    next
      case (Inr y)
      with Pair getEnv_never_null [of R n s] obtain env where "y = Some env"
        by (cases y) simp_all
      with Pair Inr have "getEnv R n s = (Inr (Some env), s1)" by simp
      then show ?thesis
        by (auto simp: setEnv_lookup_ok request_def check_outcome_def getToken_def doGetToken_def
            split: prod.splits sum.splits option.splits outcome.splits if_splits)
    qed
  qed
  show "isl (fst (getEnv R n s))
      \<or> (\<exists>auth s1 envs s2 env.
            getToken R s = (Inr auth, s1)
            \<and> request (envs_get R) (get_env_config auth n) s1 = (Inr envs, s2)
            \<and> env \<in> set envs \<and> getEnv R n s = (Inr (Some env), s2))"
    by (auto simp: getEnv_def dest: find_env_Some_name
        split: prod.splits sum.splits option.splits)
qed

section \<open>The fields no method assigns\<close>

lemma setEnv_settings: "same_settings (this s) (this (snd (setEnv R n v r s)))"
proof -
  obtain x s1 where l: "getEnv R n s = (x, s1)" by (cases "getEnv R n s")
  with getEnv_settings [of s R n] have a: "same_settings (this s) (this s1)" by simp
  show ?thesis
  proof (cases x)
    case (Inl e)
    with l a show ?thesis by (simp add: setEnv_lookup_fails)
  next
    case (Inr y)
    show ?thesis
    proof (cases y)
      case None
      with l Inr a show ?thesis by (simp add: setEnv_def)
    next
      case (Some env)
      obtain z s2 where g: "getToken R s1 = (z, s2)" by (cases "getToken R s1")
      with getToken_settings [of s1 R] have "same_settings (this s1) (this s2)" by simp
      with a have b: "same_settings (this s) (this s2)" by (rule same_settings_trans)
      from l Inr Some have "getEnv R n s = (Inr (Some env), s1)" by simp
      with g b show ?thesis
        by (cases z) (simp_all add: setEnv_lookup_ok request_this)
    qed
  qed
qed

text \<open>
  C10. \<open>tokenInfo\<close> is the only field of the client that a method assigns. \<open>request\<close> and
  \<open>doGetToken\<close> leave the whole object as it was, and after \<open>getToken\<close>, \<open>getEnv\<close> and \<open>setEnv\<close>
  the fields \<open>baseUrl\<close>, \<open>clientId\<close>, \<open>clientSecret\<close> and \<open>axiosInstance\<close> hold what they held
  before the call.
\<close>

theorem methods_keep_settings:
  "this (snd (request T cfg s)) = this s
   \<and> this (snd (doGetToken R s)) = this s
   \<and> same_settings (this s) (this (snd (getToken R s)))
   \<and> same_settings (this s) (this (snd (getEnv R n s)))
   \<and> same_settings (this s) (this (snd (setEnv R n v r s)))"
  by (simp add: request_this doGetToken_this getToken_settings getEnv_settings setEnv_settings)

section \<open>What overlapping calls do\<close>

text \<open>
  A call that runs alone through the machine does what \<open>getToken\<close> does: one step when the
  token is cached, three when it is not.
\<close>

lemma run_alone_cached:
  assumes "cached_token (this s) = Some a"
  shows "run R [0] (start s 1) =
    Some \<lparr>shared = snd (getToken R s), locks = [], calls = [Returned (fst (getToken R s))]\<rparr>"
  using assms by (simp add: step_def start_def getToken_hit)

lemma run_alone_fetch:
  assumes "cached_token (this s) = None"
  shows "run R [0, 0, 0] (start s 1) =
    Some \<lparr>shared = snd (getToken R s), locks = [False],
      calls = [Returned (fst (getToken R s))]\<rparr>"
proof (cases "axios_request (auth_token R) (token_config (this s)) (net s)")
  case (Pair x w)
  with assms show ?thesis
    by (cases "check_outcome x")
      (simp_all add: step_def start_def new_RWLock_def writeLock_def unlock_def getToken_miss
        doGetToken_def request_def)
qed

text \<open>A lock that is held stops the next \<open>writeLock\<close> on it, until it is unlocked.\<close>

lemma writeLock_excludes:
  "writeLock l ls = Some ls1 \<Longrightarrow> writeLock l ls1 = None \<and> writeLock l (unlock l ls1) \<noteq> None"
  by (auto simp: writeLock_def unlock_def split: if_splits)

text \<open>
  Whatever the service answers, two calls that start on a client with no valid token and take
  turns each send a token request before either has its answer.
\<close>

lemma overlapping_calls_send_two_requests:
  assumes "cached_token (this s) = None"
  shows "map_option (\<lambda>k. sent (net (shared k))) (run R [0, 1, 0, 1] (start s 2)) =
    Some (sent (net s) @ [token_config (this s), token_config (this s)])"
  using assms
  by (simp add: start_def step_def new_RWLock_def writeLock_def axios_request_def numeral_2_eq_2
      split: prod.splits)

text \<open>
  C8. The claim is that when several calls of \<open>getToken\<close> on one client overlap while no token
  is cached, the lock and the second test of the cache let at most one token request out, and
  every caller returns the token stored in \<open>tokenInfo\<close>. The code does not do that. The lock is
  created inside the call (line 75), so two calls that overlap hold two different locks and
  neither waits for the other. Started together on a new client, each runs to its first
  \<open>await\<close>, then each finds the cache empty and sends a token request, then each receives its
  answer: two token requests are sent, the first caller returns \<open>Bearer first\<close>, and
  \<open>tokenInfo\<close> ends with the token \<open>second\<close>.
\<close>

theorem overlapping_getToken_calls_fetch_twice:
  "map_option
     (\<lambda>k. (token_requests (sent (net (shared k))), calls k, locks k,
           tokenInfo (this (shared k))))
     (run (service 1700000000) [0, 1, 0, 1, 0, 1] (start fresh 2)) =
   Some (2, [Returned (Inr ''Bearer first''), Returned (Inr ''Bearer second'')], [False, False],
     Some \<lparr>token = ''second'', token_type = ''Bearer'', expiration = 1700000000\<rparr>)"
  by (simp add: start_def fresh_def new_Client_def step_def cached_token_def new_RWLock_def
      writeLock_def unlock_def axios_request_def check_outcome_def service_def ok_def issued_def
      bearer_def token_requests_def token_config_def numeral_2_eq_2)

end
